theory Spec2Isabelle
  imports Complex_Main "HOL-Library.Sublist" "HOL-Library.AList"
begin

section \<open>JSON values as Python sees them\<close>

text \<open>
  The client works on the values that \<^verbatim>\<open>json.loads\<close> returns: \<^verbatim>\<open>None\<close>, booleans,
  integers, floats, strings, lists and dictionaries. A dictionary is an association
  list in insertion order. A float is the rational number it denotes, or one of the
  three values that are not finite; both zeros are \<open>Finite 0\<close>.
\<close>

datatype pyfloat = Finite rat | PosInf | NegInf | NaN

datatype json =
    JNull
  | JBool bool
  | JInt int
  | JFloat pyfloat
  | JStr string
  | JArr "json list"
  | JObj "(string \<times> json) list"

text \<open>The exceptions of Python that the modelled code can meet.\<close>

datatype py_exn =
    TypeError
  | AttributeError
  | KeyError
  | JSONDecodeError
  | HTTPError
  | MCPConnectionError
  | ToolExecutionError

text \<open>
  \<^verbatim>\<open>key in v\<close>: a key test on a dictionary, a membership test on a list, a substring
  test on a string, and \<^verbatim>\<open>TypeError\<close> on every other value.
\<close>

fun py_in :: "string \<Rightarrow> json \<Rightarrow> py_exn + bool" where
  "py_in k (JObj d) = Inr (k \<in> set (map fst d))"
| "py_in k (JArr xs) = Inr (JStr k \<in> set xs)"
| "py_in k (JStr s) = Inr (sublist k s)"
| "py_in k v = Inl TypeError"

text \<open>\<^verbatim>\<open>v[key]\<close> with a string key: only a dictionary that has the key answers.\<close>

fun py_getitem :: "json \<Rightarrow> string \<Rightarrow> py_exn + json" where
  "py_getitem (JObj d) k = (case map_of d k of None \<Rightarrow> Inl KeyError | Some v \<Rightarrow> Inr v)"
| "py_getitem v k = Inl TypeError"

text \<open>\<^verbatim>\<open>v.get(key, default)\<close>: only dictionaries have the method.\<close>

fun py_get :: "json \<Rightarrow> string \<Rightarrow> json \<Rightarrow> py_exn + json" where
  "py_get (JObj d) k dflt = Inr (case map_of d k of None \<Rightarrow> dflt | Some v \<Rightarrow> v)"
| "py_get v k dflt = Inl AttributeError"

text \<open>
  Iterating a value in a \<^verbatim>\<open>for\<close>: the elements of a list, the keys of a dictionary,
  the characters of a string; other values are not iterable.
\<close>

fun py_iter :: "json \<Rightarrow> py_exn + json list" where
  "py_iter (JArr xs) = Inr xs"
| "py_iter (JObj d) = Inr (map (\<lambda>kv. JStr (fst kv)) d)"
| "py_iter (JStr s) = Inr (map (\<lambda>c. JStr [c]) s)"
| "py_iter v = Inl TypeError"

text \<open>Truth value of a value in \<^verbatim>\<open>if not v\<close>.\<close>

fun py_truthy :: "json \<Rightarrow> bool" where
  "py_truthy JNull = False"
| "py_truthy (JBool b) = b"
| "py_truthy (JInt n) = (n \<noteq> 0)"
| "py_truthy (JFloat r) = (r \<noteq> Finite 0)"
| "py_truthy (JStr s) = (s \<noteq> [])"
| "py_truthy (JArr xs) = (xs \<noteq> [])"
| "py_truthy (JObj d) = (d \<noteq> [])"

text \<open>A list comprehension whose body may raise: the first exception ends it.\<close>

fun map_exn :: "('a \<Rightarrow> py_exn + 'b) \<Rightarrow> 'a list \<Rightarrow> py_exn + 'b list" where
  "map_exn f [] = Inr []"
| "map_exn f (x # xs) =
     (case f x of
        Inl e \<Rightarrow> Inl e
      | Inr y \<Rightarrow> (case map_exn f xs of Inl e \<Rightarrow> Inl e | Inr ys \<Rightarrow> Inr (y # ys)))"

section \<open>The SSE envelope parser\<close>

text \<open>
  \<^verbatim>\<open>str.strip()\<close> removes the white space of both ends. A character is its code
  point, below 256; the white space there is 9 to 13, 28 to 32, 133 and 160.
\<close>

definition is_space :: "char \<Rightarrow> bool" where
  "is_space c =
     (let n = of_char c :: nat
      in (9 \<le> n \<and> n \<le> 13) \<or> (28 \<le> n \<and> n \<le> 32) \<or> n = 133 \<or> n = 160)"

definition lstrip :: "string \<Rightarrow> string" where
  "lstrip s = dropWhile is_space s"

definition rstrip :: "string \<Rightarrow> string" where
  "rstrip s = rev (dropWhile is_space (rev s))"

definition strip :: "string \<Rightarrow> string" where
  "strip s = rstrip (lstrip s)"

text \<open>\<^verbatim>\<open>str.split('\n')\<close>: the pieces between line feeds, at least one piece.\<close>

fun split_nl :: "string \<Rightarrow> string list" where
  "split_nl [] = [[]]"
| "split_nl (c # cs) =
     (if c = CHR 0x0A then [] # split_nl cs
      else (case split_nl cs of [] \<Rightarrow> [[c]] | l # ls \<Rightarrow> (c # l) # ls))"

text \<open>
  The loop of \<^verbatim>\<open>_parse_sse_response\<close>: the first line that starts with
  \<^verbatim>\<open>data: \<close> decides; its remainder (from index 6) goes to \<^verbatim>\<open>json.loads\<close>.
\<close>

fun first_data_line :: "string list \<Rightarrow> string option" where
  "first_data_line [] = None"
| "first_data_line (l # ls) =
     (if prefix ''data: '' l then Some (drop 6 l) else first_data_line ls)"

text \<open>
  \<^verbatim>\<open>json.loads\<close> is a library function; it is a parameter \<open>loads\<close> here, with
  \<open>None\<close> for \<^verbatim>\<open>JSONDecodeError\<close>.
\<close>

definition parse_sse_response :: "(string \<Rightarrow> json option) \<Rightarrow> string \<Rightarrow> py_exn + json" where
  "parse_sse_response loads text =
     (case first_data_line (split_nl (strip text)) of
        Some data_str \<Rightarrow>
          (case loads data_str of None \<Rightarrow> Inl JSONDecodeError | Some v \<Rightarrow> Inr v)
      | None \<Rightarrow>
          (case loads text of None \<Rightarrow> Inl JSONDecodeError | Some v \<Rightarrow> Inr v))"

section \<open>The HTTP client of the MCP session\<close>

text \<open>
  The fields of \<^verbatim>\<open>HttpMCPClient\<close>. The handle is \<open>None\<close> or an open
  \<^verbatim>\<open>httpx.AsyncClient\<close> with its timeout in seconds.
\<close>

datatype http_client = AsyncClient nat

record mcp_client =
  server_url :: string
  client :: "http_client option"
  session_id :: "string option"
  tools_cache :: "json list option"
  request_id :: int

text \<open>\<^verbatim>\<open>__init__\<close>\<close>

definition init_client :: "string \<Rightarrow> mcp_client" where
  "init_client url =
     \<lparr>server_url = url, client = None, session_id = None, tools_cache = None, request_id = 0\<rparr>"

text \<open>
  What one \<^verbatim>\<open>post\<close> gives back: the call raises an \<^verbatim>\<open>httpx.HTTPError\<close>
  (time-out, refused connection), or it returns a response with a status code, the
  value of the \<^verbatim>\<open>mcp-session-id\<close> header and the body text.
\<close>

record http_response =
  status_code :: nat
  session_header :: "string option"
  response_text :: string

datatype post_outcome = PostRaises | PostReturns http_response

text \<open>\<^verbatim>\<open>raise_for_status\<close> of httpx raises unless the status is 2xx.\<close>

definition is_success :: "nat \<Rightarrow> bool" where
  "is_success st = (200 \<le> st \<and> st < 300)"

text \<open>The messages the client posts: a request carries an id, a notification none.\<close>

datatype rpc_message =
    Request int string "json option"
  | Notification string

text \<open>\<^verbatim>\<open>_next_request_id\<close>: increment, then return the new value.\<close>

definition next_request_id :: "mcp_client \<Rightarrow> int \<times> mcp_client" where
  "next_request_id s = (request_id s + 1, s\<lparr>request_id := request_id s + 1\<rparr>)"

text \<open>The guard of \<^verbatim>\<open>list_tools\<close> and \<^verbatim>\<open>call_tool\<close>:
  \<^verbatim>\<open>not self._client or not self._session_id\<close>; an empty session id is false too.\<close>

definition not_connected :: "mcp_client \<Rightarrow> bool" where
  "not_connected s = (client s = None \<or> session_id s = None \<or> session_id s = Some [])"

subsection \<open>connect and disconnect\<close>

definition init_params :: json where
  "init_params =
     JObj [(''protocolVersion'', JStr ''2024-11-05''),
           (''capabilities'', JObj []),
           (''clientInfo'', JObj [(''name'', JStr ''py-calculator''), (''version'', JStr ''0.1.0'')])]"

text \<open>
  \<^verbatim>\<open>connect\<close>. The two posts of the handshake are the arguments \<open>init_post\<close> and
  \<open>notif_post\<close>. The whole body is inside one \<^verbatim>\<open>try\<close>, and both handlers raise
  \<^verbatim>\<open>MCPConnectionError\<close>. The session id is stored before it is tested. The
  response to the notification is not inspected. The result is the outcome, the new
  state and the messages posted.
\<close>

definition connect ::
  "(string \<Rightarrow> json option) \<Rightarrow> mcp_client \<Rightarrow> post_outcome \<Rightarrow> post_outcome
     \<Rightarrow> (py_exn + unit) \<times> mcp_client \<times> rpc_message list" where
  "connect loads s init_post notif_post =
     (let s1 = s\<lparr>client := Some (AsyncClient 30)\<rparr>;
          (rid, s2) = next_request_id s1;
          init_request = Request rid ''initialize'' (Some init_params)
      in case init_post of
           PostRaises \<Rightarrow> (Inl MCPConnectionError, s2, [init_request])
         | PostReturns r \<Rightarrow>
             if \<not> is_success (status_code r) then (Inl MCPConnectionError, s2, [init_request])
             else
               let s3 = s2\<lparr>session_id := session_header r\<rparr>
               in if session_header r = None \<or> session_header r = Some []
                  then (Inl MCPConnectionError, s3, [init_request])
                  else
                    (case parse_sse_response loads (response_text r) of
                       Inl e \<Rightarrow> (Inl MCPConnectionError, s3, [init_request])
                     | Inr result \<Rightarrow>
                         (case py_in ''error'' result of
                            Inl e \<Rightarrow> (Inl MCPConnectionError, s3, [init_request])
                          | Inr has_error \<Rightarrow>
                              if has_error then (Inl MCPConnectionError, s3, [init_request])
                              else
                                (case notif_post of
                                   PostRaises \<Rightarrow>
                                     (Inl MCPConnectionError, s3,
                                      [init_request, Notification ''notifications/initialized''])
                                 | PostReturns r2 \<Rightarrow>
                                     (Inr (), s3,
                                      [init_request, Notification ''notifications/initialized''])))))"

text \<open>
  \<^verbatim>\<open>disconnect\<close>. \<open>aclose_raises\<close> says whether closing the handle raises; the
  handler logs the exception and the two assignments after the call are skipped.
\<close>

definition disconnect :: "bool \<Rightarrow> mcp_client \<Rightarrow> mcp_client" where
  "disconnect aclose_raises s =
     (case client s of
        None \<Rightarrow> s
      | Some c \<Rightarrow> if aclose_raises then s else s\<lparr>client := None, session_id := None\<rparr>)"

subsection \<open>list_tools\<close>

text \<open>One element of the list comprehension of \<^verbatim>\<open>list_tools\<close>.\<close>

definition tool_entry :: "json \<Rightarrow> py_exn + json" where
  "tool_entry tool =
     (case py_getitem tool ''name'' of
        Inl e \<Rightarrow> Inl e
      | Inr nm \<Rightarrow>
          (case py_get tool ''description'' (JStr []) of
             Inl e \<Rightarrow> Inl e
           | Inr descr \<Rightarrow>
               (case py_get tool ''inputSchema'' (JObj []) of
                  Inl e \<Rightarrow> Inl e
                | Inr schema \<Rightarrow>
                    Inr (JObj [(''name'', nm), (''description'', descr), (''inputSchema'', schema)]))))"

text \<open>The part of \<^verbatim>\<open>list_tools\<close> after the post, before the handlers.\<close>

definition list_tools_response :: "(string \<Rightarrow> json option) \<Rightarrow> post_outcome \<Rightarrow> py_exn + json list" where
  "list_tools_response loads post =
     (case post of
        PostRaises \<Rightarrow> Inl HTTPError
      | PostReturns r \<Rightarrow>
          if \<not> is_success (status_code r) then Inl HTTPError
          else
            (case parse_sse_response loads (response_text r) of
               Inl e \<Rightarrow> Inl e
             | Inr result \<Rightarrow>
                 (case py_in ''error'' result of
                    Inl e \<Rightarrow> Inl e
                  | Inr has_error \<Rightarrow>
                      if has_error then Inl MCPConnectionError
                      else
                        (case py_get result ''result'' (JObj []) of
                           Inl e \<Rightarrow> Inl e
                         | Inr res \<Rightarrow>
                             (case py_get res ''tools'' (JArr []) of
                                Inl e \<Rightarrow> Inl e
                              | Inr tools_data \<Rightarrow>
                                  (case py_iter tools_data of
                                     Inl e \<Rightarrow> Inl e
                                   | Inr items \<Rightarrow> map_exn tool_entry items))))))"

text \<open>
  \<^verbatim>\<open>list_tools\<close>: the guard raises outside the \<^verbatim>\<open>try\<close>; a cached list is
  returned without a post; every exception of the body becomes
  \<^verbatim>\<open>MCPConnectionError\<close>.
\<close>

definition list_tools ::
  "(string \<Rightarrow> json option) \<Rightarrow> mcp_client \<Rightarrow> post_outcome
     \<Rightarrow> (py_exn + json list) \<times> mcp_client \<times> rpc_message list" where
  "list_tools loads s post =
     (if not_connected s then (Inl MCPConnectionError, s, [])
      else
        (case tools_cache s of
           Some cached \<Rightarrow> (Inr cached, s, [])
         | None \<Rightarrow>
             (let (rid, s1) = next_request_id s;
                  request = Request rid ''tools/list'' None
              in case list_tools_response loads post of
                   Inl e \<Rightarrow> (Inl MCPConnectionError, s1, [request])
                 | Inr tools \<Rightarrow> (Inr tools, s1\<lparr>tools_cache := Some tools\<rparr>, [request]))))"

subsection \<open>call_tool\<close>

text \<open>
  The normalisation of the parsed envelope in \<^verbatim>\<open>call_tool\<close>. \<open>str_of\<close> is
  Python's \<^verbatim>\<open>str\<close>. \<^verbatim>\<open>json.loads\<close> of a value that is not a string raises
  \<^verbatim>\<open>TypeError\<close>, which the inner handler does not catch.
\<close>

definition decode_text :: "(string \<Rightarrow> json option) \<Rightarrow> json \<Rightarrow> py_exn + json" where
  "decode_text loads t =
     (case t of
        JStr txt \<Rightarrow>
          (case loads txt of
             Some result_dict \<Rightarrow> Inr result_dict
           | None \<Rightarrow> Inr (JObj [(''result'', JStr txt)]))
      | _ \<Rightarrow> Inl TypeError)"

definition normalize_content :: "(string \<Rightarrow> json option) \<Rightarrow> (json \<Rightarrow> string) \<Rightarrow> json \<Rightarrow> py_exn + json" where
  "normalize_content loads str_of content =
     (case content of
        JArr (first_content # rest) \<Rightarrow>
          (case first_content of
             JObj d \<Rightarrow>
               (case map_of d ''text'' of
                  Some t \<Rightarrow> decode_text loads t
                | None \<Rightarrow> Inr (JObj [(''result'', JStr (str_of first_content))]))
           | _ \<Rightarrow> Inr (JObj [(''result'', JStr (str_of first_content))]))
      | _ \<Rightarrow> Inr (JObj [(''result'', JStr (str_of content))]))"

definition normalize_result :: "(string \<Rightarrow> json option) \<Rightarrow> (json \<Rightarrow> string) \<Rightarrow> json \<Rightarrow> py_exn + json" where
  "normalize_result loads str_of result =
     (case py_in ''error'' result of
        Inl e \<Rightarrow> Inl e
      | Inr has_error \<Rightarrow>
          if has_error then
            (case py_getitem result ''error'' of
               Inl e \<Rightarrow> Inl e
             | Inr err \<Rightarrow>
                 (case py_get err ''message'' (JStr (str_of err)) of
                    Inl e \<Rightarrow> Inl e
                  | Inr error_msg \<Rightarrow> Inr (JObj [(''error'', error_msg)])))
          else
            (case py_get result ''result'' (JObj []) of
               Inl e \<Rightarrow> Inl e
             | Inr tool_result \<Rightarrow>
                 (case py_in ''content'' tool_result of
                    Inl e \<Rightarrow> Inl e
                  | Inr has_content \<Rightarrow>
                      if has_content then
                        (case py_getitem tool_result ''content'' of
                           Inl e \<Rightarrow> Inl e
                         | Inr content \<Rightarrow> normalize_content loads str_of content)
                      else Inr tool_result)))"

text \<open>The part of \<^verbatim>\<open>call_tool\<close> after the post, before the handlers.\<close>

definition call_tool_response ::
  "(string \<Rightarrow> json option) \<Rightarrow> (json \<Rightarrow> string) \<Rightarrow> post_outcome \<Rightarrow> py_exn + json" where
  "call_tool_response loads str_of post =
     (case post of
        PostRaises \<Rightarrow> Inl HTTPError
      | PostReturns r \<Rightarrow>
          if \<not> is_success (status_code r) then Inl HTTPError
          else
            (case parse_sse_response loads (response_text r) of
               Inl e \<Rightarrow> Inl e
             | Inr result \<Rightarrow> normalize_result loads str_of result))"

text \<open>
  \<^verbatim>\<open>call_tool\<close>: the guard raises \<^verbatim>\<open>MCPConnectionError\<close> outside the
  \<^verbatim>\<open>try\<close>; every exception of the body becomes \<^verbatim>\<open>ToolExecutionError\<close>.
  The arguments are a dictionary, as the signature says.
\<close>

definition call_tool ::
  "(string \<Rightarrow> json option) \<Rightarrow> (json \<Rightarrow> string) \<Rightarrow> mcp_client \<Rightarrow> string
     \<Rightarrow> (string \<times> json) list \<Rightarrow> post_outcome
     \<Rightarrow> (py_exn + json) \<times> mcp_client \<times> rpc_message list" where
  "call_tool loads str_of s name arguments post =
     (if not_connected s then (Inl MCPConnectionError, s, [])
      else
        (let (rid, s1) = next_request_id s;
             request = Request rid ''tools/call''
                         (Some (JObj [(''name'', JStr name), (''arguments'', JObj arguments)]))
         in case call_tool_response loads str_of post of
              Inl e \<Rightarrow> (Inl ToolExecutionError, s1, [request])
            | Inr v \<Rightarrow> (Inr v, s1, [request])))"

section \<open>The tool registry\<close>

text \<open>
  \<^verbatim>\<open>ToolRegistry._tools\<close> is a dictionary from tool names to tool definitions, here
  an association list in insertion order; \<^verbatim>\<open>d[k] = v\<close> is \<open>AList.update\<close>,
  which replaces the value of a present key in place and appends an absent one.
\<close>

type_synonym registry = "(string \<times> json) list"

text \<open>\<^verbatim>\<open>v.items()\<close> and \<^verbatim>\<open>v.copy()\<close> and \<^verbatim>\<open>v[key] = x\<close> on a JSON value.\<close>

fun py_items :: "json \<Rightarrow> py_exn + (string \<times> json) list" where
  "py_items (JObj d) = Inr d"
| "py_items v = Inl AttributeError"

fun py_copy :: "json \<Rightarrow> py_exn + json" where
  "py_copy (JObj d) = Inr (JObj d)"
| "py_copy (JArr xs) = Inr (JArr xs)"
| "py_copy v = Inl AttributeError"

fun py_setitem :: "json \<Rightarrow> string \<Rightarrow> json \<Rightarrow> py_exn + json" where
  "py_setitem (JObj d) k x = Inr (JObj (AList.update k x d))"
| "py_setitem v k x = Inl TypeError"

text \<open>The body of the loop of \<^verbatim>\<open>_transform_input_schema\<close>, for one property.\<close>

definition enhance_prop :: "string \<Rightarrow> json \<Rightarrow> py_exn + json" where
  "enhance_prop prop_name prop_schema =
     (case py_copy prop_schema of
        Inl e \<Rightarrow> Inl e
      | Inr enhanced_prop \<Rightarrow>
          (case py_in ''description'' enhanced_prop of
             Inl e \<Rightarrow> Inl e
           | Inr has_description \<Rightarrow>
               if has_description then Inr enhanced_prop
               else py_setitem enhanced_prop ''description''
                      (JStr (''The '' @ prop_name @ '' parameter''))))"

text \<open>The loop, with \<^verbatim>\<open>enhanced_properties\<close> as the accumulator.\<close>

fun enhance_properties ::
  "(string \<times> json) list \<Rightarrow> (string \<times> json) list \<Rightarrow> py_exn + (string \<times> json) list" where
  "enhance_properties [] enhanced_properties = Inr enhanced_properties"
| "enhance_properties ((prop_name, prop_schema) # rest) enhanced_properties =
     (case enhance_prop prop_name prop_schema of
        Inl e \<Rightarrow> Inl e
      | Inr enhanced_prop \<Rightarrow>
          enhance_properties rest (AList.update prop_name enhanced_prop enhanced_properties))"

definition empty_parameters :: json where
  "empty_parameters =
     JObj [(''type'', JStr ''object''), (''properties'', JObj []), (''required'', JArr [])]"

definition transform_input_schema :: "json \<Rightarrow> py_exn + json" where
  "transform_input_schema input_schema =
     (if \<not> py_truthy input_schema then Inr empty_parameters
      else
        (case py_get input_schema ''properties'' (JObj []) of
           Inl e \<Rightarrow> Inl e
         | Inr properties \<Rightarrow>
             (case py_items properties of
                Inl e \<Rightarrow> Inl e
              | Inr items \<Rightarrow>
                  (case enhance_properties items [] of
                     Inl e \<Rightarrow> Inl e
                   | Inr enhanced_properties \<Rightarrow>
                       (case py_get input_schema ''required'' (JArr []) of
                          Inl e \<Rightarrow> Inl e
                        | Inr required \<Rightarrow>
                            Inr (JObj [(''type'', JStr ''object''),
                                       (''properties'', JObj enhanced_properties),
                                       (''required'', required)]))))))"

text \<open>One element of the result of \<^verbatim>\<open>to_ollama_format\<close>, and the whole loop.\<close>

definition ollama_tool :: "json \<Rightarrow> py_exn + json" where
  "ollama_tool tool =
     (case py_getitem tool ''name'' of
        Inl e \<Rightarrow> Inl e
      | Inr nm \<Rightarrow>
          (case py_get tool ''description'' (JStr []) of
             Inl e \<Rightarrow> Inl e
           | Inr descr \<Rightarrow>
               (case py_get tool ''inputSchema'' (JObj []) of
                  Inl e \<Rightarrow> Inl e
                | Inr input_schema \<Rightarrow>
                    (case transform_input_schema input_schema of
                       Inl e \<Rightarrow> Inl e
                     | Inr parameters \<Rightarrow>
                         Inr (JObj [(''type'', JStr ''function''),
                                    (''function'',
                                     JObj [(''name'', nm), (''description'', descr),
                                           (''parameters'', parameters)])])))))"

definition to_ollama_format :: "registry \<Rightarrow> py_exn + json list" where
  "to_ollama_format tools = map_exn ollama_tool (map snd tools)"

section \<open>Argument coercion of the chat service\<close>

text \<open>
  \<^verbatim>\<open>int(value)\<close> and \<^verbatim>\<open>float(value)\<close> on a string are the parameters \<open>int_of\<close>
  and \<open>float_of\<close>, with \<open>None\<close> for \<^verbatim>\<open>ValueError\<close>.
\<close>

definition coerce_value :: "(string \<Rightarrow> int option) \<Rightarrow> (string \<Rightarrow> pyfloat option) \<Rightarrow> json \<Rightarrow> json" where
  "coerce_value int_of float_of v =
     (case v of
        JStr s \<Rightarrow>
          (case int_of s of
             Some n \<Rightarrow> JInt n
           | None \<Rightarrow> (case float_of s of Some f \<Rightarrow> JFloat f | None \<Rightarrow> v))
      | _ \<Rightarrow> v)"

fun coerce_loop ::
  "(string \<Rightarrow> int option) \<Rightarrow> (string \<Rightarrow> pyfloat option) \<Rightarrow> (string \<times> json) list
     \<Rightarrow> (string \<times> json) list \<Rightarrow> (string \<times> json) list" where
  "coerce_loop int_of float_of [] coerced = coerced"
| "coerce_loop int_of float_of ((k, v) # rest) coerced =
     coerce_loop int_of float_of rest (AList.update k (coerce_value int_of float_of v) coerced)"

definition coerce_numeric_arguments ::
  "(string \<Rightarrow> int option) \<Rightarrow> (string \<Rightarrow> pyfloat option) \<Rightarrow> (string \<times> json) list
     \<Rightarrow> (string \<times> json) list" where
  "coerce_numeric_arguments int_of float_of arguments = coerce_loop int_of float_of arguments []"

section \<open>The calculator server\<close>

text \<open>
  The numbers of the server are any type with the four operations; \<open>/\<close> is the
  division of that type. \<^verbatim>\<open>ValueError\<close> carries its message.
\<close>

datatype server_exn = ValueError string

datatype 'n reply_value = Num 'n | Str string

definition Division_execute :: "'n::{zero,inverse} \<Rightarrow> 'n \<Rightarrow> server_exn + 'n" where
  "Division_execute a b = (if b = 0 then Inl (ValueError ''Cannot divide by zero'') else Inr (a / b))"

definition calculate ::
  "string \<Rightarrow> 'n::{zero,plus,minus,times,inverse} \<Rightarrow> 'n \<Rightarrow> server_exn + 'n" where
  "calculate operation a b =
     (if operation = ''add'' then Inr (a + b)
      else if operation = ''subtract'' then Inr (a - b)
      else if operation = ''multiply'' then Inr (a * b)
      else if operation = ''divide'' then Division_execute a b
      else Inl (ValueError (''Unknown operation: '' @ operation)))"

text \<open>The tool \<^verbatim>\<open>divide\<close>; an absent argument is \<open>None\<close>.\<close>

definition divide_tool ::
  "'n::{zero,plus,minus,times,inverse} option \<Rightarrow> 'n option \<Rightarrow> (string \<times> 'n reply_value) list" where
  "divide_tool a b =
     (case (a, b) of
        (Some x, Some y) \<Rightarrow>
          (case calculate ''divide'' x y of
             Inr result \<Rightarrow> [(''result'', Num result)]
           | Inl (ValueError msg) \<Rightarrow> [(''error'', Str msg)])
      | _ \<Rightarrow> [(''error'', Str ''Both numbers are required for division'')])"

section \<open>Instances of the library functions for the examples\<close>

text \<open>
  \<^verbatim>\<open>int\<close> and \<^verbatim>\<open>float\<close> on the strings of the examples: \<^verbatim>\<open>int("10")\<close> is 10,
  \<^verbatim>\<open>float("5.5")\<close> is 5.5, and neither parses \<^verbatim>\<open>"x"\<close>. They are used at these
  strings only.
\<close>

definition example_int :: "string \<Rightarrow> int option" where
  "example_int s = (if s = ''10'' then Some 10 else None)"

definition example_float :: "string \<Rightarrow> pyfloat option" where
  "example_float s =
     (if s = ''10'' then Some (Finite 10) else if s = ''5.5'' then Some (Finite (11 / 2)) else None)"

text \<open>
  \<^verbatim>\<open>json.loads\<close> on the bodies of the examples. It is applied to these bodies and
  to strings that are not JSON only.
\<close>

definition example_loads :: "string \<Rightarrow> json option" where
  \<open>example_loads s =
     (if s = ''{}'' then Some (JObj [])
      else if s = ''{"result": {}}'' then Some (JObj [(''result'', JObj [])])
      else if s = ''1'' then Some (JInt 1)
      else if s = ''4'' then Some (JInt 4)
      else if s = ''{"result": 4}'' then Some (JObj [(''result'', JInt 4)])
      else if s = ''{"result":{"tools":[]}}'' then Some (JObj [(''result'', JObj [(''tools'', JArr [])])])
      else if s = ''{"error": "boom"}'' then Some (JObj [(''error'', JStr ''boom'')])
      else if s = ''{"error": {"code": -32000, "message": "Cannot divide by zero"}}''
        then Some (JObj [(''error'', JObj [(''code'', JInt (- 32000)),
                                           (''message'', JStr ''Cannot divide by zero'')])])
      else if s = ''{"result": {"content": "abc"}}''
        then Some (JObj [(''result'', JObj [(''content'', JStr ''abc'')])])
      else if s = ''{"result": {"content": [{"type": "text", "text": "4"}]}}''
        then Some (JObj [(''result'', JObj [(''content'',
                     JArr [JObj [(''type'', JStr ''text''), (''text'', JStr ''4'')]])])])
      else if s = ''{"result": {"content": [{"type": "text", "text": "done"}]}}''
        then Some (JObj [(''result'', JObj [(''content'',
                     JArr [JObj [(''type'', JStr ''text''), (''text'', JStr ''done'')]])])])
      else if s = ''{"result": {"tools": [{"name": "add"}]}}''
        then Some (JObj [(''result'', JObj [(''tools'', JArr [JObj [(''name'', JStr ''add'')]])])])
      else if s = ''{"result": {"content": [{"type": "text", "text": 5}]}}''
        then Some (JObj [(''result'', JObj [(''content'',
                     JArr [JObj [(''type'', JStr ''text''), (''text'', JInt 5)]])])])
      else if s = ''{\<newline>"a": 1}'' then Some (JObj [(''a'', JInt 1)])
      else None)\<close>

text \<open>
  \<^verbatim>\<open>str\<close> on strings, \<^verbatim>\<open>None\<close>, booleans and the empty containers; the examples
  apply it to these values only.
\<close>

fun example_str :: "json \<Rightarrow> string" where
  "example_str (JStr s) = s"
| "example_str JNull = ''None''"
| "example_str (JBool b) = (if b then ''True'' else ''False'')"
| "example_str (JArr []) = ''[]''"
| "example_str (JObj []) = ''{}''"
| "example_str v = []"

definition example_url :: string where
  "example_url = ''http://127.0.0.1:8000/mcp''"

text \<open>A response with status 200 and the session id \<^verbatim>\<open>abc\<close>.\<close>

definition ok_response :: "string \<Rightarrow> post_outcome" where
  "ok_response body = PostReturns \<lparr>status_code = 200, session_header = Some ''abc'', response_text = body\<rparr>"

section \<open>Sequences of calls on one client\<close>

text \<open>
  The client is used sequentially: a run is a list of calls, each with the outcomes of
  its posts. A step gives the new state and the messages posted.
\<close>

datatype client_op =
    Connect post_outcome post_outcome
  | Disconnect bool
  | ListTools post_outcome
  | CallTool string "(string \<times> json) list" post_outcome

fun step ::
  "(string \<Rightarrow> json option) \<Rightarrow> (json \<Rightarrow> string) \<Rightarrow> mcp_client \<Rightarrow> client_op
     \<Rightarrow> mcp_client \<times> rpc_message list" where
  "step loads str_of s (Connect init_post notif_post) = snd (connect loads s init_post notif_post)"
| "step loads str_of s (Disconnect aclose_raises) = (disconnect aclose_raises s, [])"
| "step loads str_of s (ListTools post) = snd (list_tools loads s post)"
| "step loads str_of s (CallTool name arguments post) =
     snd (call_tool loads str_of s name arguments post)"

fun run ::
  "(string \<Rightarrow> json option) \<Rightarrow> (json \<Rightarrow> string) \<Rightarrow> mcp_client \<Rightarrow> client_op list
     \<Rightarrow> mcp_client \<times> rpc_message list" where
  "run loads str_of s [] = (s, [])"
| "run loads str_of s (op # ops) =
     (let (s1, sent) = step loads str_of s op;
          (s2, sent') = run loads str_of s1 ops
      in (s2, sent @ sent'))"

fun request_ids :: "rpc_message list \<Rightarrow> int list" where
  "request_ids [] = []"
| "request_ids (Request rid m params # ms) = rid # request_ids ms"
| "request_ids (Notification m # ms) = request_ids ms"

section \<open>Further instances and the words of the specification\<close>

text \<open>A connected client that has issued one request.\<close>

definition example_session :: mcp_client where
  "example_session =
     \<lparr>server_url = example_url, client = Some (AsyncClient 30), session_id = Some ''abc'',
      tools_cache = None, request_id = 1\<rparr>"

text \<open>
  The SSE body of the example of the specification: an event line, the
  \<^verbatim>\<open>data: \<close> line that carries the payload \<open>p\<close>, and an empty line.
\<close>

definition sse_frame :: "string \<Rightarrow> string" where
  "sse_frame p = ''event: message\<newline>data: '' @ p @ ''\<newline>\<newline>''"

text \<open>
  The specification's rule for one property schema, in its words: a property that
  lacks a \<^verbatim>\<open>description\<close> gets \<^verbatim>\<open>"The <propertyName> parameter"\<close>, added after its
  other fields; a property that carries one is left as it is.
\<close>

definition described :: "string \<Rightarrow> (string \<times> json) list \<Rightarrow> (string \<times> json) list" where
  "described prop_name schema =
     (if ''description'' \<in> set (map fst schema) then schema
      else schema @ [(''description'', JStr (''The '' @ prop_name @ '' parameter''))])"

text \<open>A registry with two tools: one with a schema of two properties, one with no schema.\<close>

definition example_tools :: registry where
  "example_tools =
     [(''add'',
       JObj [(''name'', JStr ''add''), (''description'', JStr ''Add two numbers.''),
             (''inputSchema'',
              JObj [(''type'', JStr ''object''),
                    (''properties'',
                     JObj [(''a'', JObj [(''type'', JStr ''number'')]),
                           (''b'', JObj [(''type'', JStr ''number''),
                                         (''description'', JStr ''second'')])]),
                    (''required'', JArr [JStr ''a'', JStr ''b''])])]),
      (''ping'', JObj [(''name'', JStr ''ping'')])]"

section \<open>Properties of the argument coercion\<close>

lemma update_append_fresh: "k \<notin> fst ` set acc \<Longrightarrow> AList.update k v acc = acc @ [(k, v)]"
  by (induction acc) auto

lemma coerce_loop_distinct:
  "distinct (map fst xs) \<Longrightarrow> fst ` set acc \<inter> fst ` set xs = {} \<Longrightarrow>
   coerce_loop i f xs acc = acc @ map (\<lambda>(k, v). (k, coerce_value i f v)) xs"
proof (induction xs arbitrary: acc)
  case Nil
  then show ?case by simp
next
  case (Cons p xs)
  obtain k v where p: "p = (k, v)" by (cases p)
  from Cons.prems have fresh: "k \<notin> fst ` set acc" by (auto simp: p)
  have d: "distinct (map fst xs)" using Cons.prems by simp
  have disj: "fst ` set (acc @ [(k, coerce_value i f v)]) \<inter> fst ` set xs = {}"
    using Cons.prems by (auto simp: p)
  show ?case
    using Cons.IH [OF d disj] by (simp add: p update_append_fresh [OF fresh])
qed

lemma coerce_loop_keys:
  "fst ` set (coerce_loop i f xs acc) = fst ` set acc \<union> fst ` set xs"
proof (induction xs arbitrary: acc)
  case Nil
  then show ?case by simp
next
  case (Cons p xs)
  obtain k v where p: "p = (k, v)" by (cases p)
  have "fst ` set (coerce_loop i f (p # xs) acc) =
        fst ` set (AList.update k (coerce_value i f v) acc) \<union> fst ` set xs"
    by (simp add: p Cons.IH)
  also have "\<dots> = ({k} \<union> fst ` set acc) \<union> fst ` set xs"
    by (simp only: dom_update)
  also have "\<dots> = fst ` set acc \<union> fst ` set (p # xs)"
    by (auto simp: p)
  finally show ?case .
qed

text \<open>
  C8: argument coercion is a function of the argument map (total, deterministic,
  without an exception: a failed \<^verbatim>\<open>int\<close> or \<^verbatim>\<open>float\<close> is the value \<open>None\<close> of the
  parser). It keeps the key set; on a dictionary (distinct keys) it maps every entry
  by itself, in order. A string that parses as an integer becomes that integer,
  otherwise one that parses as a float becomes that float, otherwise it stays; a value
  that is not a string stays. With \<^verbatim>\<open>int("10") = 10\<close>, \<^verbatim>\<open>float("5.5") = 5.5\<close> and
  \<^verbatim>\<open>"x"\<close> unparseable, \<^verbatim>\<open>{"a": "10", "b": "5.5", "c": "x"}\<close> becomes
  \<^verbatim>\<open>{"a": 10, "b": 5.5, "c": "x"}\<close>.
\<close>

theorem coerce_numeric_arguments_spec:
  "fst ` set (coerce_numeric_arguments int_of float_of arguments) = fst ` set arguments
   \<and> (distinct (map fst arguments) \<longrightarrow>
        coerce_numeric_arguments int_of float_of arguments =
          map (\<lambda>(k, v). (k, coerce_value int_of float_of v)) arguments)
   \<and> (int_of s = Some n \<longrightarrow> coerce_value int_of float_of (JStr s) = JInt n)
   \<and> (int_of s = None \<and> float_of s = Some x \<longrightarrow> coerce_value int_of float_of (JStr s) = JFloat x)
   \<and> (int_of s = None \<and> float_of s = None \<longrightarrow> coerce_value int_of float_of (JStr s) = JStr s)
   \<and> ((\<forall>t. v \<noteq> JStr t) \<longrightarrow> coerce_value int_of float_of v = v)
   \<and> (int_of ''10'' = Some 10 \<and> int_of ''5.5'' = None \<and> float_of ''5.5'' = Some (Finite (11 / 2))
        \<and> int_of ''x'' = None \<and> float_of ''x'' = None \<longrightarrow>
        coerce_numeric_arguments int_of float_of
          [(''a'', JStr ''10''), (''b'', JStr ''5.5''), (''c'', JStr ''x'')] =
          [(''a'', JInt 10), (''b'', JFloat (Finite (11 / 2))), (''c'', JStr ''x'')])"
proof -
  have keys: "fst ` set (coerce_numeric_arguments int_of float_of arguments) = fst ` set arguments"
    by (simp add: coerce_numeric_arguments_def coerce_loop_keys)
  have whole: "distinct (map fst arguments) \<longrightarrow>
        coerce_numeric_arguments int_of float_of arguments =
          map (\<lambda>(k, v). (k, coerce_value int_of float_of v)) arguments"
    by (simp add: coerce_numeric_arguments_def coerce_loop_distinct)
  have other: "(\<forall>t. v \<noteq> JStr t) \<longrightarrow> coerce_value int_of float_of v = v"
    by (cases v) (simp_all add: coerce_value_def)
  show ?thesis
    using keys whole other by (simp add: coerce_value_def coerce_numeric_arguments_def)
qed

theorem coerce_numeric_arguments_spec_witness:
  "distinct (map fst [(''a'', JStr ''10''), (''b'', JStr ''5.5''), (''c'', JStr ''x''), (''d'', JBool True)])
   \<and> example_int ''10'' = Some 10 \<and> example_int ''5.5'' = None
   \<and> example_float ''5.5'' = Some (Finite (11 / 2)) \<and> example_int ''x'' = None \<and> example_float ''x'' = None
   \<and> (\<forall>t. JBool True \<noteq> JStr t)
   \<and> coerce_numeric_arguments example_int example_float
        [(''a'', JStr ''10''), (''b'', JStr ''5.5''), (''c'', JStr ''x''), (''d'', JBool True)] =
        [(''a'', JInt 10), (''b'', JFloat (Finite (11 / 2))), (''c'', JStr ''x''), (''d'', JBool True)]
   \<and> coerce_numeric_arguments example_int example_float
        [(''a'', JStr ''10''), (''b'', JStr ''5.5''), (''c'', JStr ''x'')] =
        [(''a'', JInt 10), (''b'', JFloat (Finite (11 / 2))), (''c'', JStr ''x'')]"
  using coerce_numeric_arguments_spec [of example_int example_float
      "[(''a'', JStr ''10''), (''b'', JStr ''5.5''), (''c'', JStr ''x''), (''d'', JBool True)]"
      "''10''" 10 "Finite (11 / 2)" "JBool True"]
  by (simp add: example_int_def example_float_def coerce_value_def)

section \<open>Properties of the calculator server\<close>

text \<open>
  C9: the divide tool returns \<^verbatim>\<open>{result: a/b}\<close> when both arguments are present and
  \<open>b\<close> is not zero, \<^verbatim>\<open>{error: "Cannot divide by zero"}\<close> as a value (no exception)
  when \<open>b\<close> is zero, and the missing-argument message when an argument is absent.
\<close>

theorem divide_tool_contract:
  fixes a b :: "'n::{zero,plus,minus,times,inverse}"
  shows "(b \<noteq> 0 \<longrightarrow> divide_tool (Some a) (Some b) = [(''result'', Num (a / b))])
       \<and> divide_tool (Some a) (Some 0) = [(''error'', Str ''Cannot divide by zero'')]
       \<and> divide_tool None (Some b) = [(''error'', Str ''Both numbers are required for division'')]
       \<and> divide_tool (Some a) None = [(''error'', Str ''Both numbers are required for division'')]
       \<and> divide_tool None (None :: 'n option) = [(''error'', Str ''Both numbers are required for division'')]"
  by (simp add: divide_tool_def calculate_def Division_execute_def)

theorem divide_tool_contract_witness:
  "(4::rat) \<noteq> 0 \<and> divide_tool (Some (10::rat)) (Some 4) = [(''result'', Num (5 / 2))]
   \<and> divide_tool (Some (10::rat)) (Some 0) = [(''error'', Str ''Cannot divide by zero'')]"
  using divide_tool_contract [of "4::rat" 10] by simp

section \<open>Properties of the session client\<close>

subsection \<open>Request ids\<close>

lemma request_ids_append: "request_ids (xs @ ys) = request_ids xs @ request_ids ys"
  by (induction xs rule: request_ids.induct) simp_all

lemma connect_ids:
  "connect loads s ip np = (out, s', sent) \<Longrightarrow>
   request_ids sent = [request_id s + 1] \<and> request_id s' = request_id s + 1"
  by (auto simp: connect_def next_request_id_def Let_def
           split: post_outcome.splits if_splits sum.splits)

lemma disconnect_frame:
  "request_id (disconnect r s) = request_id s \<and> tools_cache (disconnect r s) = tools_cache s
   \<and> server_url (disconnect r s) = server_url s"
  by (simp add: disconnect_def split: option.splits)

lemma list_tools_ids:
  "list_tools loads s post = (out, s', sent) \<Longrightarrow>
   request_ids sent = [request_id s + 1 .. request_id s']
   \<and> request_id s \<le> request_id s'"
  by (auto simp: list_tools_def next_request_id_def Let_def
           split: option.splits if_splits sum.splits)

lemma call_tool_ids:
  "call_tool loads str_of s name arguments post = (out, s', sent) \<Longrightarrow>
   request_ids sent = [request_id s + 1 .. request_id s']
   \<and> request_id s \<le> request_id s'"
  by (auto simp: call_tool_def next_request_id_def Let_def
           split: option.splits if_splits sum.splits)

lemma step_ids:
  "step loads str_of s op = (s', sent) \<Longrightarrow>
   request_ids sent = [request_id s + 1 .. request_id s'] \<and> request_id s \<le> request_id s'"
proof (cases op)
  case (Connect ip np)
  assume a: "step loads str_of s op = (s', sent)"
  obtain out where "connect loads s ip np = (out, s', sent)"
    using a Connect by (cases "connect loads s ip np") auto
  from connect_ids [OF this] show ?thesis by simp
next
  case (Disconnect r)
  assume a: "step loads str_of s op = (s', sent)"
  then show ?thesis using Disconnect disconnect_frame [of r s] by auto
next
  case (ListTools post)
  assume a: "step loads str_of s op = (s', sent)"
  obtain out where "list_tools loads s post = (out, s', sent)"
    using a ListTools by (cases "list_tools loads s post") auto
  from list_tools_ids [OF this] show ?thesis by simp
next
  case (CallTool name arguments post)
  assume a: "step loads str_of s op = (s', sent)"
  obtain out where "call_tool loads str_of s name arguments post = (out, s', sent)"
    using a CallTool by (cases "call_tool loads str_of s name arguments post") auto
  from call_tool_ids [OF this] show ?thesis by simp
qed

lemma upto_join: "(a::int) \<le> b \<Longrightarrow> b \<le> c \<Longrightarrow> [a + 1 .. b] @ [b + 1 .. c] = [a + 1 .. c]"
  by (metis upto_split2 linorder_not_le upto_empty zle_add1_eq_le append_Nil order_le_less)

lemma run_ids:
  "run loads str_of s ops = (s', sent) \<Longrightarrow>
   request_ids sent = [request_id s + 1 .. request_id s'] \<and> request_id s \<le> request_id s'"
proof (induction ops arbitrary: s s' sent)
  case Nil
  then show ?case by simp
next
  case (Cons op ops)
  obtain s1 sent1 where st: "step loads str_of s op = (s1, sent1)"
    by (cases "step loads str_of s op")
  obtain s2 sent2 where rn: "run loads str_of s1 ops = (s2, sent2)"
    by (cases "run loads str_of s1 ops")
  from Cons.prems st rn have eq: "s' = s2" "sent = sent1 @ sent2" by simp_all
  from step_ids [OF st] Cons.IH [OF rn] upto_join [of "request_id s" "request_id s1" "request_id s2"]
  show ?case by (simp add: eq request_ids_append)
qed


text \<open>
  C4, as amended: over the whole life of a client, through any sequence of connect,
  disconnect, list_tools and call_tool, the ids of the posted requests are consecutive
  and strictly increasing, continuing from the counter of the starting state; on a new
  client they are 1, 2, 3, ... with no id reused. The counter is not reset by disconnect
  or connect.
\<close>

theorem request_ids_consecutive:
  "request_ids (snd (run loads str_of s ops)) =
     [request_id s + 1 .. request_id (fst (run loads str_of s ops))]
   \<and> request_ids (snd (run loads str_of (init_client url) ops)) =
     [1 .. request_id (fst (run loads str_of (init_client url) ops))]"
proof -
  have g: "request_ids (snd (run loads str_of t ops)) =
     [request_id t + 1 .. request_id (fst (run loads str_of t ops))]" for t
    using run_ids [of loads str_of t ops] by (cases "run loads str_of t ops") simp
  show ?thesis using g [of s] g [of "init_client url"] by (simp add: init_client_def)
qed

theorem request_ids_consecutive_witness:
  \<open>request_ids (snd (run example_loads example_str (init_client example_url)
      [Connect (ok_response ''{"result": {}}'') (ok_response []),
       CallTool ''add'' [(''a'', JInt 2), (''b'', JInt 3)] PostRaises,
       ListTools (ok_response ''{}''),
       Disconnect False,
       Connect (ok_response ''{"result": {}}'') (ok_response []),
       CallTool ''add'' [(''a'', JInt 2), (''b'', JInt 3)] (ok_response ''{}'')])) = [1, 2, 3, 4, 5]\<close>
  (is "request_ids (snd (run _ _ _ ?ops)) = _")
proof -
  have r: "request_id (fst (run example_loads example_str (init_client example_url) ?ops)) = 5"
    by (simp add: connect_def call_tool_def list_tools_def disconnect_def next_request_id_def
          not_connected_def init_client_def ok_response_def is_success_def Let_def
          parse_sse_response_def strip_def lstrip_def rstrip_def is_space_def example_loads_def
          list_tools_response_def call_tool_response_def normalize_result_def)
  have u: "[1 .. 5::int] = [1, 2, 3, 4, 5]" by (simp add: upto_rec1)
  have "request_ids (snd (run example_loads example_str (init_client example_url) ?ops)) =
        [1 .. request_id (fst (run example_loads example_str (init_client example_url) ?ops))]"
    using request_ids_consecutive
            [of example_loads example_str "init_client example_url" ?ops example_url]
    by (rule conjunct2)
  then show ?thesis by (simp only: r u)
qed

text \<open>
  C4 as stated fails: after connect and disconnect, the initialize request of the next
  session carries id 2, not 1.
\<close>

theorem request_id_reset_counterexample:
  \<open>connect example_loads
      (disconnect False
         (fst (snd (connect example_loads (init_client example_url)
                      (ok_response ''{"result": {}}'') (ok_response [])))))
      (ok_response ''{"result": {}}'') (ok_response []) =
    (Inr (),
     \<lparr>server_url = example_url, client = Some (AsyncClient 30), session_id = Some ''abc'',
      tools_cache = None, request_id = 2\<rparr>,
     [Request 2 ''initialize'' (Some init_params), Notification ''notifications/initialized''])\<close>
  by (simp add: connect_def disconnect_def next_request_id_def init_client_def ok_response_def
        is_success_def Let_def parse_sse_response_def strip_def lstrip_def rstrip_def is_space_def
        example_loads_def)

subsection \<open>connect and disconnect\<close>

lemma connect_success_state:
  "connect loads s ip np = (Inr (), s', sent) \<Longrightarrow>
   \<not> not_connected s' \<and> tools_cache s' = tools_cache s \<and> request_id s' = request_id s + 1
   \<and> sent = [Request (request_id s + 1) ''initialize'' (Some init_params),
              Notification ''notifications/initialized'']"
  by (auto simp: connect_def next_request_id_def not_connected_def Let_def
           split: post_outcome.splits if_splits sum.splits)

lemma list_tools_caches:
  "list_tools loads s0 post0 = (Inr tools, s, sent0) \<Longrightarrow> tools_cache s = Some tools"
  by (auto simp: list_tools_def next_request_id_def Let_def
           split: option.splits if_splits sum.splits)

text \<open>
  C10, as amended: disconnect changes no field but the client handle and the session
  id; the request counter, the tools cache and the URL keep their values in every
  case. With an open handle whose closing does not raise, both the handle and the
  session id become \<open>None\<close>; without a handle, or when closing raises, nothing
  changes. After list_tools has returned a list, a disconnect (whatever closing does)
  and a new successful connect, list_tools returns that list again, posts nothing and
  leaves the state as it is, and the initialize request of the new connect carries the
  previous counter plus 1.
\<close>

theorem disconnect_frame_and_reconnect:
  "request_id (disconnect aclose_raises s) = request_id s
   \<and> tools_cache (disconnect aclose_raises s) = tools_cache s
   \<and> server_url (disconnect aclose_raises s) = server_url s
   \<and> (client s \<noteq> None \<and> \<not> aclose_raises \<longrightarrow>
        client (disconnect aclose_raises s) = None
        \<and> session_id (disconnect aclose_raises s) = None)
   \<and> (client s = None \<or> aclose_raises \<longrightarrow> disconnect aclose_raises s = s)
   \<and> (list_tools loads s0 post0 = (Inr tools, s, sent0)
        \<and> connect loads (disconnect aclose_raises s) init_post notif_post = (Inr (), s', sent)
        \<longrightarrow>
        list_tools loads s' post = (Inr tools, s', [])
        \<and> sent = [Request (request_id s + 1) ''initialize'' (Some init_params),
                   Notification ''notifications/initialized''])"
proof -
  have frame: "request_id (disconnect aclose_raises s) = request_id s
     \<and> tools_cache (disconnect aclose_raises s) = tools_cache s
     \<and> server_url (disconnect aclose_raises s) = server_url s"
    by (simp add: disconnect_def split: option.splits)
  have cleared: "client s \<noteq> None \<and> \<not> aclose_raises \<longrightarrow>
        client (disconnect aclose_raises s) = None
        \<and> session_id (disconnect aclose_raises s) = None"
    by (auto simp: disconnect_def split: option.splits)
  have same: "client s = None \<or> aclose_raises \<longrightarrow> disconnect aclose_raises s = s"
    by (auto simp: disconnect_def split: option.splits)
  have again: "list_tools loads s' post = (Inr tools, s', [])
        \<and> sent = [Request (request_id s + 1) ''initialize'' (Some init_params),
                   Notification ''notifications/initialized'']"
    if l: "list_tools loads s0 post0 = (Inr tools, s, sent0)"
      and k: "connect loads (disconnect aclose_raises s) init_post notif_post = (Inr (), s', sent)"
  proof -
    have c: "tools_cache s = Some tools" using l by (rule list_tools_caches)
    from connect_success_state [OF k] frame c show ?thesis
      by (simp add: list_tools_def)
  qed
  show ?thesis using frame cleared same again by blast
qed

lemma parse_tools_add:
  \<open>parse_sse_response example_loads ''{"result": {"tools": [{"name": "add"}]}}'' =
    Inr (JObj [(''result'', JObj [(''tools'', JArr [JObj [(''name'', JStr ''add'')]])])])\<close>
  by (simp add: parse_sse_response_def strip_def lstrip_def rstrip_def is_space_def example_loads_def)

lemma list_tools_response_add:
  \<open>list_tools_response example_loads
      (ok_response ''{"result": {"tools": [{"name": "add"}]}}'') =
    Inr [JObj [(''name'', JStr ''add''), (''description'', JStr []), (''inputSchema'', JObj [])]]\<close>
  by (simp add: list_tools_response_def ok_response_def is_success_def parse_tools_add
        tool_entry_def)

theorem disconnect_frame_and_reconnect_witness:
  \<open>client (example_session\<lparr>request_id := 2,
        tools_cache := Some [JObj [(''name'', JStr ''add''), (''description'', JStr []),
                                   (''inputSchema'', JObj [])]]\<rparr>) \<noteq> None
   \<and> list_tools example_loads example_session
        (ok_response ''{"result": {"tools": [{"name": "add"}]}}'') =
       (Inr [JObj [(''name'', JStr ''add''), (''description'', JStr []), (''inputSchema'', JObj [])]],
        example_session\<lparr>request_id := 2,
          tools_cache := Some [JObj [(''name'', JStr ''add''), (''description'', JStr []),
                                     (''inputSchema'', JObj [])]]\<rparr>,
        [Request 2 ''tools/list'' None])
   \<and> connect example_loads
        (disconnect False
           (example_session\<lparr>request_id := 2,
              tools_cache := Some [JObj [(''name'', JStr ''add''), (''description'', JStr []),
                                         (''inputSchema'', JObj [])]]\<rparr>))
        (ok_response ''{"result": {}}'') (ok_response []) =
       (Inr (),
        example_session\<lparr>request_id := 3,
          tools_cache := Some [JObj [(''name'', JStr ''add''), (''description'', JStr []),
                                     (''inputSchema'', JObj [])]]\<rparr>,
        [Request 3 ''initialize'' (Some init_params), Notification ''notifications/initialized''])
   \<and> list_tools example_loads
        (example_session\<lparr>request_id := 3,
          tools_cache := Some [JObj [(''name'', JStr ''add''), (''description'', JStr []),
                                     (''inputSchema'', JObj [])]]\<rparr>) PostRaises =
       (Inr [JObj [(''name'', JStr ''add''), (''description'', JStr []), (''inputSchema'', JObj [])]],
        example_session\<lparr>request_id := 3,
          tools_cache := Some [JObj [(''name'', JStr ''add''), (''description'', JStr []),
                                     (''inputSchema'', JObj [])]]\<rparr>, [])\<close>
proof -
  let ?tools = "[JObj [(''name'', JStr ''add''), (''description'', JStr []),
                       (''inputSchema'', JObj [])]]"
  let ?s = "example_session\<lparr>request_id := 2, tools_cache := Some ?tools\<rparr>"
  let ?s' = "example_session\<lparr>request_id := 3, tools_cache := Some ?tools\<rparr>"
  let ?pfirst = \<open>ok_response ''{"result": {"tools": [{"name": "add"}]}}''\<close>
  let ?sfirst = "[Request 2 ''tools/list'' None]"
  let ?ip = \<open>ok_response ''{"result": {}}''\<close>
  let ?np = "ok_response []"
  let ?sent = "[Request 3 ''initialize'' (Some init_params),
                Notification ''notifications/initialized'']"
  have a: "client ?s \<noteq> None" by (simp add: example_session_def)
  have l: "list_tools example_loads example_session ?pfirst = (Inr ?tools, ?s, ?sfirst)"
    by (simp add: list_tools_def list_tools_response_add next_request_id_def not_connected_def
          example_session_def)
  have c: "connect example_loads (disconnect False ?s) ?ip ?np = (Inr (), ?s', ?sent)"
    by (simp add: connect_def disconnect_def next_request_id_def ok_response_def
          example_session_def is_success_def Let_def parse_sse_response_def strip_def
          lstrip_def rstrip_def is_space_def example_loads_def)
  have d: "list_tools example_loads ?s' PostRaises = (Inr ?tools, ?s', [])"
    using disconnect_frame_and_reconnect
      [of False ?s example_loads example_session ?pfirst ?tools ?sfirst ?ip ?np ?s' ?sent PostRaises]
      l c by (simp add: example_session_def)
  show ?thesis using a l c d by blast
qed

text \<open>
  C10 as stated fails: when closing the handle raises, the handler skips both
  assignments; the handle and the session id stay as they were and the client still
  passes the guard of list_tools and call_tool.
\<close>

theorem disconnect_clears_counterexample:
  "disconnect True example_session = example_session
   \<and> client (disconnect True example_session) = Some (AsyncClient 30)
   \<and> session_id (disconnect True example_session) = Some ''abc''
   \<and> \<not> not_connected (disconnect True example_session)"
  by (simp add: disconnect_def example_session_def not_connected_def)

text \<open>
  C3, as amended: when the initialize exchange succeeds and yields a session id, the
  response to \<^verbatim>\<open>notifications/initialized\<close> is not inspected, so connect succeeds
  on every response to it, whatever its status; when posting the notification raises a
  transport error, connect fails with \<^verbatim>\<open>MCPConnectionError\<close>, in the same state
  and after the same messages.
\<close>

theorem connect_notification:
  "is_success (status_code r) \<and> session_header r = Some sid \<and> sid \<noteq> []
   \<and> parse_sse_response loads (response_text r) = Inr result \<and> py_in ''error'' result = Inr False
   \<longrightarrow>
     fst (connect loads s (PostReturns r) (PostReturns r2)) = Inr ()
   \<and> fst (connect loads s (PostReturns r) PostRaises) = Inl MCPConnectionError
   \<and> snd (connect loads s (PostReturns r) PostRaises) =
       snd (connect loads s (PostReturns r) (PostReturns r2))"
  by (simp add: connect_def next_request_id_def Let_def)

theorem connect_notification_witness:
  \<open>is_success (status_code \<lparr>status_code = 200, session_header = Some ''abc'',
                            response_text = ''{"result": {}}''\<rparr>)
   \<and> parse_sse_response example_loads ''{"result": {}}'' = Inr (JObj [(''result'', JObj [])])
   \<and> py_in ''error'' (JObj [(''result'', JObj [])]) = Inr False
   \<and> fst (connect example_loads (init_client example_url)
            (PostReturns \<lparr>status_code = 200, session_header = Some ''abc'',
                          response_text = ''{"result": {}}''\<rparr>)
            (PostReturns \<lparr>status_code = 500, session_header = None, response_text = []\<rparr>)) = Inr ()\<close>
proof -
  have h1: \<open>is_success (status_code \<lparr>status_code = 200, session_header = Some ''abc'',
                            response_text = ''{"result": {}}''\<rparr>)\<close>
    by (simp add: is_success_def)
  have h2: \<open>parse_sse_response example_loads ''{"result": {}}'' = Inr (JObj [(''result'', JObj [])])\<close>
    by (simp add: parse_sse_response_def strip_def lstrip_def rstrip_def is_space_def example_loads_def)
  have h3: "py_in ''error'' (JObj [(''result'', JObj [])]) = Inr False" by simp
  show ?thesis
    using connect_notification
      [of \<open>\<lparr>status_code = 200, session_header = Some ''abc'', response_text = ''{"result": {}}''\<rparr>\<close>
          "''abc''" example_loads "JObj [(''result'', JObj [])]" "init_client example_url"
          "\<lparr>status_code = 500, session_header = None, response_text = []\<rparr>"]
      h1 h2 h3 by simp
qed

text \<open>
  C3 as stated fails: initialize succeeds with session id \<^verbatim>\<open>abc\<close>, the post of the
  notification raises, and connect raises \<^verbatim>\<open>MCPConnectionError\<close>.
\<close>

theorem connect_notification_counterexample:
  \<open>connect example_loads (init_client example_url) (ok_response ''{"result": {}}'') PostRaises =
     (Inl MCPConnectionError,
      \<lparr>server_url = example_url, client = Some (AsyncClient 30), session_id = Some ''abc'',
       tools_cache = None, request_id = 1\<rparr>,
      [Request 1 ''initialize'' (Some init_params), Notification ''notifications/initialized''])\<close>
  by (simp add: connect_def next_request_id_def init_client_def ok_response_def
        is_success_def Let_def parse_sse_response_def strip_def lstrip_def rstrip_def is_space_def
        example_loads_def)

subsection \<open>The result of call_tool\<close>

lemma map_of_key: "map_of d k = Some v \<Longrightarrow> k \<in> set (map fst d)"
  by (metis map_of_eq_None_iff option.distinct(1) set_map)

lemma map_of_no_key: "k \<notin> set (map fst d) \<Longrightarrow> map_of d k = None"
  by (simp add: map_of_eq_None_iff)

lemma call_tool_outcome:
  "\<not> not_connected s \<Longrightarrow> is_success (status_code r) \<Longrightarrow>
   parse_sse_response loads (response_text r) = Inr result \<Longrightarrow>
   fst (call_tool loads str_of s name arguments (PostReturns r)) =
     (case normalize_result loads str_of result of
        Inl e \<Rightarrow> Inl ToolExecutionError | Inr v \<Rightarrow> Inr v)"
  by (simp add: call_tool_def call_tool_response_def next_request_id_def Let_def
           split: sum.splits)

lemma normalize_error_object:
  "map_of d ''error'' = Some (JObj e) \<Longrightarrow>
   normalize_result loads str_of (JObj d) =
     Inr (JObj [(''error'', case map_of e ''message'' of
                              Some m \<Rightarrow> m | None \<Rightarrow> JStr (str_of (JObj e)))])"
  using map_of_key [of d "''error''" "JObj e"]
  by (simp add: normalize_result_def split: option.splits)

text \<open>
  C2, as amended: when the parsed response is an object whose top-level \<^verbatim>\<open>error\<close>
  field is itself an object, call_tool raises no exception and returns the mapping
  \<^verbatim>\<open>{error: m}\<close>, where \<open>m\<close> is the \<^verbatim>\<open>message\<close> of that object, or the
  stringified error object when it has no \<^verbatim>\<open>message\<close>.
\<close>

theorem call_tool_error_envelope:
  "\<not> not_connected s \<and> is_success (status_code r)
   \<and> parse_sse_response loads (response_text r) = Inr (JObj d)
   \<and> map_of d ''error'' = Some (JObj e)
   \<longrightarrow> fst (call_tool loads str_of s name arguments (PostReturns r)) =
         Inr (JObj [(''error'', case map_of e ''message'' of
                                  Some m \<Rightarrow> m | None \<Rightarrow> JStr (str_of (JObj e)))])"
  by (simp add: call_tool_outcome normalize_error_object)

lemma parse_divide_error:
  \<open>parse_sse_response example_loads
      ''{"error": {"code": -32000, "message": "Cannot divide by zero"}}'' =
    Inr (JObj [(''error'', JObj [(''code'', JInt (- 32000)),
                                 (''message'', JStr ''Cannot divide by zero'')])])\<close>
  by (simp add: parse_sse_response_def strip_def lstrip_def rstrip_def is_space_def example_loads_def)

theorem call_tool_error_envelope_witness:
  \<open>\<not> not_connected example_session
   \<and> is_success 200
   \<and> fst (call_tool example_loads example_str example_session ''divide''
            [(''a'', JInt 10), (''b'', JInt 0)]
            (ok_response ''{"error": {"code": -32000, "message": "Cannot divide by zero"}}'')) =
       Inr (JObj [(''error'', JStr ''Cannot divide by zero'')])\<close>
proof -
  have c: "\<not> not_connected example_session"
    by (simp add: not_connected_def example_session_def)
  have h: "is_success 200" by (simp add: is_success_def)
  show ?thesis
    using call_tool_error_envelope
      [of example_session
          \<open>\<lparr>status_code = 200, session_header = Some ''abc'',
            response_text = ''{"error": {"code": -32000, "message": "Cannot divide by zero"}}''\<rparr>\<close>
          example_loads
          "[(''error'', JObj [(''code'', JInt (- 32000)), (''message'', JStr ''Cannot divide by zero'')])]"
          "[(''code'', JInt (- 32000)), (''message'', JStr ''Cannot divide by zero'')]"
          example_str "''divide''" "[(''a'', JInt 10), (''b'', JInt 0)]"]
      c h parse_divide_error
    by (simp add: ok_response_def)
qed

text \<open>
  C2 as stated fails: the response \<^verbatim>\<open>{"error": "boom"}\<close> carries a top-level
  \<^verbatim>\<open>error\<close> field, \<^verbatim>\<open>result["error"].get\<close> raises \<^verbatim>\<open>AttributeError\<close> on the
  string, and call_tool raises \<^verbatim>\<open>ToolExecutionError\<close>.
\<close>

theorem call_tool_error_envelope_counterexample:
  \<open>call_tool example_loads example_str example_session ''divide''
      [(''a'', JInt 10), (''b'', JInt 0)] (ok_response ''{"error": "boom"}'') =
    (Inl ToolExecutionError, example_session\<lparr>request_id := 2\<rparr>,
     [Request 2 ''tools/call''
        (Some (JObj [(''name'', JStr ''divide''),
                     (''arguments'', JObj [(''a'', JInt 10), (''b'', JInt 0)])]))])\<close>
  by (simp add: call_tool_def call_tool_response_def next_request_id_def Let_def
        not_connected_def example_session_def ok_response_def is_success_def
        parse_sse_response_def strip_def lstrip_def rstrip_def is_space_def example_loads_def
        normalize_result_def)

subsection \<open>An envelope with neither result nor error\<close>

lemma normalize_empty_envelope:
  "''error'' \<notin> set (map fst d) \<Longrightarrow> ''result'' \<notin> set (map fst d) \<Longrightarrow>
   normalize_result loads str_of (JObj d) = Inr (JObj [])"
  using map_of_no_key [of "''result''" d]
  by (simp add: normalize_result_def)

lemma list_tools_empty_envelope:
  "\<not> not_connected s \<Longrightarrow> tools_cache s = None \<Longrightarrow> is_success (status_code r) \<Longrightarrow>
   parse_sse_response loads (response_text r) = Inr (JObj d) \<Longrightarrow>
   ''error'' \<notin> set (map fst d) \<Longrightarrow> ''result'' \<notin> set (map fst d) \<Longrightarrow>
   list_tools loads s (PostReturns r) =
     (Inr [], s\<lparr>request_id := request_id s + 1, tools_cache := Some []\<rparr>,
      [Request (request_id s + 1) ''tools/list'' None])"
  using map_of_no_key [of "''result''" d]
  by (simp add: list_tools_def list_tools_response_def next_request_id_def Let_def)

text \<open>
  C5, as amended: a response envelope that is an object without a \<^verbatim>\<open>result\<close> and
  without an \<^verbatim>\<open>error\<close> field is accepted as a normal outcome. call_tool returns
  the empty object, the default of the missing \<^verbatim>\<open>result\<close>; list_tools returns the
  empty list of tools and stores it in the cache. Neither raises.
\<close>

theorem empty_envelope_accepted:
  "\<not> not_connected s \<and> is_success (status_code r)
   \<and> parse_sse_response loads (response_text r) = Inr (JObj d)
   \<and> ''error'' \<notin> set (map fst d) \<and> ''result'' \<notin> set (map fst d)
   \<longrightarrow> fst (call_tool loads str_of s name arguments (PostReturns r)) = Inr (JObj [])
       \<and> (tools_cache s = None \<longrightarrow>
            list_tools loads s (PostReturns r) =
              (Inr [], s\<lparr>request_id := request_id s + 1, tools_cache := Some []\<rparr>,
               [Request (request_id s + 1) ''tools/list'' None]))"
  by (simp add: call_tool_outcome normalize_empty_envelope list_tools_empty_envelope)

lemma parse_empty_object:
  "parse_sse_response example_loads ''{}'' = Inr (JObj [])"
  by (simp add: parse_sse_response_def strip_def lstrip_def rstrip_def is_space_def example_loads_def)

theorem empty_envelope_accepted_witness:
  "\<not> not_connected example_session \<and> is_success 200 \<and> tools_cache example_session = None
   \<and> ''error'' \<notin> set (map fst ([] :: (string \<times> json) list))
   \<and> fst (call_tool example_loads example_str example_session ''add''
            [(''a'', JInt 2), (''b'', JInt 3)] (ok_response ''{}'')) = Inr (JObj [])
   \<and> fst (list_tools example_loads example_session (ok_response ''{}'')) = Inr []"
proof -
  have c: "\<not> not_connected example_session"
    by (simp add: not_connected_def example_session_def)
  have h: "is_success 200" by (simp add: is_success_def)
  have t: "tools_cache example_session = None" by (simp add: example_session_def)
  show ?thesis
    using empty_envelope_accepted
      [of example_session
          "\<lparr>status_code = 200, session_header = Some ''abc'', response_text = ''{}''\<rparr>"
          example_loads "[]" example_str "''add''" "[(''a'', JInt 2), (''b'', JInt 3)]"]
      c h t parse_empty_object
    by (simp add: ok_response_def)
qed

text \<open>
  C5 as stated fails: for the body \<^verbatim>\<open>{}\<close> call_tool returns \<^verbatim>\<open>{}\<close> and
  list_tools returns and caches \<^verbatim>\<open>[]\<close>; no protocol violation is raised.
\<close>

theorem empty_envelope_counterexample:
  "call_tool example_loads example_str example_session ''add''
      [(''a'', JInt 2), (''b'', JInt 3)] (ok_response ''{}'') =
    (Inr (JObj []), example_session\<lparr>request_id := 2\<rparr>,
     [Request 2 ''tools/call''
        (Some (JObj [(''name'', JStr ''add''),
                     (''arguments'', JObj [(''a'', JInt 2), (''b'', JInt 3)])]))])
   \<and> list_tools example_loads example_session (ok_response ''{}'') =
    (Inr [], example_session\<lparr>request_id := 2, tools_cache := Some []\<rparr>,
     [Request 2 ''tools/list'' None])"
  by (simp add: call_tool_def call_tool_response_def list_tools_def list_tools_response_def
        next_request_id_def Let_def not_connected_def example_session_def ok_response_def
        is_success_def parse_empty_object normalize_result_def)

subsection \<open>The normalisation of a result payload\<close>







section \<open>Properties of the SSE envelope parser\<close>

lemma split_nl_one_line: "CHR 0x0A \<notin> set s \<Longrightarrow> split_nl s = [s]"
  by (induction s) auto

lemma split_nl_first_line:
  "CHR 0x0A \<notin> set a \<Longrightarrow> split_nl (a @ CHR 0x0A # b) = a # split_nl b"
  by (induction a) auto

lemma rstrip_spaces: "\<forall>c\<in>set ws. is_space c \<Longrightarrow> rstrip (a @ ws) = rstrip a"
proof -
  assume "\<forall>c\<in>set ws. is_space c"
  then have "dropWhile is_space (rev ws @ rev a) = dropWhile is_space (rev a)"
    by (intro dropWhile_append2) simp
  then show ?thesis by (simp add: rstrip_def)
qed

lemma rstrip_append: "rstrip b \<noteq> [] \<Longrightarrow> rstrip (a @ b) = a @ rstrip b"
proof -
  assume "rstrip b \<noteq> []"
  then obtain x where x: "x \<in> set (rev b)" "\<not> is_space x"
    by (auto simp: rstrip_def)
  then have "dropWhile is_space (rev b @ rev a) = dropWhile is_space (rev b) @ rev a"
    by (rule dropWhile_append1)
  then show ?thesis by (simp add: rstrip_def)
qed

lemma set_rstrip: "set (rstrip s) \<subseteq> set s"
  using set_dropWhileD [of _ is_space "rev s"] by (auto simp: rstrip_def)

lemma set_strip: "set (strip s) \<subseteq> set s"
  using set_rstrip [of "lstrip s"] set_dropWhileD [of _ is_space s]
  by (auto simp: strip_def lstrip_def)

lemma first_data_line_None:
  "first_data_line ls = None \<longleftrightarrow> (\<forall>l\<in>set ls. \<not> prefix ''data: '' l)"
  by (induction ls) auto

lemma strip_sse_frame:
  assumes "rstrip p \<noteq> []"
  shows "strip (sse_frame p) = ''event: message\<newline>data: '' @ rstrip p"
proof -
  have l: "lstrip (sse_frame p) = sse_frame p"
    by (simp add: lstrip_def sse_frame_def is_space_def)
  have "rstrip (sse_frame p) = rstrip ((''event: message\<newline>data: '' @ p) @ ''\<newline>\<newline>'')"
    by (simp add: sse_frame_def)
  also have "\<dots> = rstrip (''event: message\<newline>data: '' @ p)"
    by (rule rstrip_spaces) (simp add: is_space_def)
  also have "\<dots> = ''event: message\<newline>data: '' @ rstrip p"
    using assms by (rule rstrip_append)
  finally show ?thesis by (simp add: strip_def l)
qed

lemma parse_sse_frame:
  assumes nl: "CHR 0x0A \<notin> set p" and ne: "rstrip p \<noteq> []"
  shows "parse_sse_response loads (sse_frame p) =
           (case loads (rstrip p) of None \<Rightarrow> Inl JSONDecodeError | Some v \<Rightarrow> Inr v)"
proof -
  have n: "CHR 0x0A \<notin> set (''data: '' @ rstrip p)"
    using nl set_rstrip [of p] by auto
  have "split_nl (strip (sse_frame p)) =
          split_nl (''event: message'' @ CHR 0x0A # (''data: '' @ rstrip p))"
    by (simp add: strip_sse_frame [OF ne])
  also have "\<dots> = ''event: message'' # split_nl (''data: '' @ rstrip p)"
    by (rule split_nl_first_line) simp
  also have "\<dots> = [''event: message'', ''data: '' @ rstrip p]"
    by (simp only: split_nl_one_line [OF n])
  finally have "first_data_line (split_nl (strip (sse_frame p))) = Some (rstrip p)"
    by simp
  then show ?thesis by (simp add: parse_sse_response_def)
qed

lemma parse_bare:
  assumes "\<forall>l\<in>set (split_nl (strip text)). \<not> prefix ''data: '' l"
  shows "parse_sse_response loads text =
           (case loads text of None \<Rightarrow> Inl JSONDecodeError | Some v \<Rightarrow> Inr v)"
  using assms by (simp add: parse_sse_response_def first_data_line_None [symmetric])

text \<open>
  C6, as amended. First part: for every payload \<open>p\<close> on one line (no line feed),
  parsing the SSE body whose \<^verbatim>\<open>data: \<close> line carries \<open>p\<close> gives the same result as
  parsing the bare body \<open>p\<close>, namely \<^verbatim>\<open>json.loads(p)\<close>. The other three hypotheses
  hold for every JSON text and are stated because \<^verbatim>\<open>json.loads\<close> is a parameter:
  \<open>p\<close> is not blank, it does not begin with \<^verbatim>\<open>data: \<close>, and white space after it
  does not change what \<^verbatim>\<open>json.loads\<close> returns. Second part: for every body whose
  text, after \<^verbatim>\<open>strip()\<close>, has no line that starts with \<^verbatim>\<open>data: \<close>, the parser
  parses the entire body as JSON.
\<close>

theorem parse_sse_response_framing:
  "(CHR 0x0A \<notin> set p \<and> rstrip p \<noteq> [] \<and> \<not> prefix ''data: '' (strip p)
      \<and> loads (rstrip p) = loads p \<longrightarrow>
      parse_sse_response loads (sse_frame p) = parse_sse_response loads p
      \<and> parse_sse_response loads p =
           (case loads p of None \<Rightarrow> Inl JSONDecodeError | Some v \<Rightarrow> Inr v))
   \<and> ((\<forall>l\<in>set (split_nl (strip text)). \<not> prefix ''data: '' l) \<longrightarrow>
      parse_sse_response loads text =
        (case loads text of None \<Rightarrow> Inl JSONDecodeError | Some v \<Rightarrow> Inr v))"
proof -
  have one: "parse_sse_response loads (sse_frame p) = parse_sse_response loads p
      \<and> parse_sse_response loads p =
           (case loads p of None \<Rightarrow> Inl JSONDecodeError | Some v \<Rightarrow> Inr v)"
    if nl: "CHR 0x0A \<notin> set p" and ne: "rstrip p \<noteq> []"
      and np: "\<not> prefix ''data: '' (strip p)" and ld: "loads (rstrip p) = loads p"
  proof -
    have "CHR 0x0A \<notin> set (strip p)" using nl set_strip [of p] by auto
    then have "split_nl (strip p) = [strip p]" by (rule split_nl_one_line)
    then have "\<forall>l\<in>set (split_nl (strip p)). \<not> prefix ''data: '' l" using np by simp
    then have b: "parse_sse_response loads p =
           (case loads p of None \<Rightarrow> Inl JSONDecodeError | Some v \<Rightarrow> Inr v)"
      by (rule parse_bare)
    show ?thesis using parse_sse_frame [OF nl ne, of loads] b ld by simp
  qed
  show ?thesis using one parse_bare by blast
qed

theorem parse_sse_response_framing_witness:
  \<open>CHR 0x0A \<notin> set ''{"result":{"tools":[]}}'' \<and> rstrip ''{"result":{"tools":[]}}'' \<noteq> []
   \<and> \<not> prefix ''data: '' (strip ''{"result":{"tools":[]}}'')
   \<and> split_nl (strip ''{"result":{"tools":[]}}'') = [''{"result":{"tools":[]}}'']
   \<and> parse_sse_response example_loads
        ''event: message\<newline>data: {"result":{"tools":[]}}\<newline>\<newline>'' =
       parse_sse_response example_loads ''{"result":{"tools":[]}}''
   \<and> parse_sse_response example_loads ''{"result":{"tools":[]}}'' =
       Inr (JObj [(''result'', JObj [(''tools'', JArr [])])])\<close>
proof -
  have r: \<open>rstrip ''{"result":{"tools":[]}}'' = ''{"result":{"tools":[]}}''\<close>
    and s: \<open>strip ''{"result":{"tools":[]}}'' = ''{"result":{"tools":[]}}''\<close>
    by (simp_all add: strip_def lstrip_def rstrip_def is_space_def)
  have l: \<open>example_loads ''{"result":{"tools":[]}}'' =
             Some (JObj [(''result'', JObj [(''tools'', JArr [])])])\<close>
    by (simp add: example_loads_def)
  show ?thesis
    using parse_sse_response_framing
      [of \<open>''{"result":{"tools":[]}}''\<close> example_loads \<open>''{"result":{"tools":[]}}''\<close>]
    by (simp add: r s l sse_frame_def)
qed

text \<open>
  C6 as stated fails. The body \<^verbatim>\<open> data: 1\<close> begins with a space, so no line of it
  starts with \<^verbatim>\<open>data: \<close>; the parser strips the body first, finds the data line and
  returns 1, although the entire body is not JSON. And the JSON payload
  \<^verbatim>\<open>{"a": 1}\<close> with a line feed after the brace parses as a bare body, but on a
  \<^verbatim>\<open>data: \<close> line only its first line is read and decoding fails.
\<close>

theorem parse_sse_response_framing_counterexample:
  \<open>split_nl '' data: 1'' = ['' data: 1''] \<and> \<not> prefix ''data: '' '' data: 1''
   \<and> parse_sse_response example_loads '' data: 1'' = Inr (JInt 1)
   \<and> example_loads '' data: 1'' = None
   \<and> parse_sse_response example_loads (sse_frame ''{\<newline>"a": 1}'') = Inl JSONDecodeError
   \<and> parse_sse_response example_loads ''{\<newline>"a": 1}'' = Inr (JObj [(''a'', JInt 1)])\<close>
  by (simp add: parse_sse_response_def strip_def lstrip_def rstrip_def is_space_def
        example_loads_def sse_frame_def)

section \<open>Properties of the tool registry\<close>

lemma enhance_prop_object:
  "enhance_prop prop_name (JObj schema) = Inr (JObj (described prop_name schema))"
proof (cases "''description'' \<in> set (map fst schema)")
  case True
  then show ?thesis by (simp add: enhance_prop_def described_def)
next
  case False
  then have "''description'' \<notin> fst ` set schema" by simp
  from update_append_fresh [OF this] False show ?thesis
    by (simp add: enhance_prop_def described_def)
qed

lemma enhance_properties_objects:
  "distinct (map fst pl) \<Longrightarrow> fst ` set acc \<inter> fst ` set pl = {} \<Longrightarrow>
   enhance_properties (map (\<lambda>(n, schema). (n, JObj schema)) pl) acc =
     Inr (acc @ map (\<lambda>(n, schema). (n, JObj (described n schema))) pl)"
proof (induction pl arbitrary: acc)
  case Nil
  then show ?case by simp
next
  case (Cons p pl)
  obtain n schema where p: "p = (n, schema)" by (cases p)
  from Cons.prems have fresh: "n \<notin> fst ` set acc" by (auto simp: p)
  have d: "distinct (map fst pl)" using Cons.prems by simp
  have disj: "fst ` set (acc @ [(n, JObj (described n schema))]) \<inter> fst ` set pl = {}"
    using Cons.prems by (auto simp: p)
  show ?case
    using Cons.IH [OF d disj]
    by (simp add: p enhance_prop_object update_append_fresh [OF fresh])
qed

lemma transform_falsy:
  "\<not> py_truthy input_schema \<Longrightarrow> transform_input_schema input_schema = Inr empty_parameters"
  by (simp add: transform_input_schema_def)

lemma transform_object:
  assumes ne: "sd \<noteq> []"
    and pr: "(case map_of sd ''properties'' of None \<Rightarrow> JObj [] | Some x \<Rightarrow> x) =
              JObj (map (\<lambda>(n, schema). (n, JObj schema)) pl)"
    and di: "distinct (map fst pl)"
  shows "transform_input_schema (JObj sd) =
     Inr (JObj [(''type'', JStr ''object''),
                (''properties'', JObj (map (\<lambda>(n, schema). (n, JObj (described n schema))) pl)),
                (''required'', case map_of sd ''required'' of None \<Rightarrow> JArr [] | Some x \<Rightarrow> x)])"
proof -
  have "enhance_properties (map (\<lambda>(n, schema). (n, JObj schema)) pl) [] =
          Inr ([] @ map (\<lambda>(n, schema). (n, JObj (described n schema))) pl)"
    by (rule enhance_properties_objects [OF di]) simp
  then show ?thesis using ne pr by (simp add: transform_input_schema_def)
qed

lemma map_exn_Inr:
  "map_exn f xs = Inr ys \<Longrightarrow> list_all2 (\<lambda>x y. f x = Inr y) xs ys"
  by (induction xs arbitrary: ys) (auto split: sum.splits)

lemma all2_map_exn:
  "list_all2 (\<lambda>x y. f x = Inr y) xs ys \<Longrightarrow> map_exn f xs = Inr ys"
  by (induction xs ys rule: list_all2_induct) auto

lemma map_exn_all2:
  "map_exn f xs = Inr ys \<longleftrightarrow> list_all2 (\<lambda>x y. f x = Inr y) xs ys"
  using map_exn_Inr all2_map_exn by blast

text \<open>
  C7, as amended. to_ollama_format returns a list exactly when every registered tool is
  transformed, and then the list holds, in order, the transformed tool of each one. For
  a registered tool (a dictionary with a \<^verbatim>\<open>name\<close>) the transformed tool is
  \<^verbatim>\<open>{type: "function", function: {name, description, parameters}}\<close>, the description
  being empty when absent. When the \<^verbatim>\<open>inputSchema\<close> is absent or empty,
  \<^verbatim>\<open>parameters\<close> is \<^verbatim>\<open>{type: "object", properties: {}, required: []}\<close>. When it
  is a non-empty object whose \<^verbatim>\<open>properties\<close> (an empty dictionary when absent) map
  every property name to an object, every property schema is copied, the description
  \<^verbatim>\<open>"The <propertyName> parameter"\<close> is added exactly to those that lack one, and
  \<^verbatim>\<open>required\<close> is copied as it is (the empty list when absent).
\<close>

theorem to_ollama_format_spec:
  "(to_ollama_format tools = Inr outs \<longleftrightarrow>
      list_all2 (\<lambda>tool out. ollama_tool tool = Inr out) (map snd tools) outs)
   \<and> (map_of td ''name'' = Some nm
        \<and> (case map_of td ''description'' of None \<Rightarrow> JStr [] | Some x \<Rightarrow> x) = descr
        \<and> (case map_of td ''inputSchema'' of None \<Rightarrow> JObj [] | Some x \<Rightarrow> x) = input_schema
      \<longrightarrow>
        (\<not> py_truthy input_schema \<longrightarrow>
           ollama_tool (JObj td) =
             Inr (JObj [(''type'', JStr ''function''),
                        (''function'',
                         JObj [(''name'', nm), (''description'', descr),
                               (''parameters'',
                                JObj [(''type'', JStr ''object''), (''properties'', JObj []),
                                      (''required'', JArr [])])])]))
      \<and> (input_schema = JObj sd \<and> sd \<noteq> []
           \<and> (case map_of sd ''properties'' of None \<Rightarrow> JObj [] | Some x \<Rightarrow> x) =
                 JObj (map (\<lambda>(n, schema). (n, JObj schema)) pl)
           \<and> distinct (map fst pl) \<longrightarrow>
           ollama_tool (JObj td) =
             Inr (JObj [(''type'', JStr ''function''),
                        (''function'',
                         JObj [(''name'', nm), (''description'', descr),
                               (''parameters'',
                                JObj [(''type'', JStr ''object''),
                                      (''properties'',
                                       JObj (map (\<lambda>(n, schema). (n, JObj (described n schema))) pl)),
                                      (''required'',
                                       case map_of sd ''required'' of
                                         None \<Rightarrow> JArr [] | Some x \<Rightarrow> x)])])])))"
proof -
  have whole: "to_ollama_format tools = Inr outs \<longleftrightarrow>
      list_all2 (\<lambda>tool out. ollama_tool tool = Inr out) (map snd tools) outs"
    by (simp add: to_ollama_format_def map_exn_all2)
  have empty: "ollama_tool (JObj td) =
             Inr (JObj [(''type'', JStr ''function''),
                        (''function'',
                         JObj [(''name'', nm), (''description'', descr),
                               (''parameters'',
                                JObj [(''type'', JStr ''object''), (''properties'', JObj []),
                                      (''required'', JArr [])])])])"
    if "map_of td ''name'' = Some nm"
      and "(case map_of td ''description'' of None \<Rightarrow> JStr [] | Some x \<Rightarrow> x) = descr"
      and "(case map_of td ''inputSchema'' of None \<Rightarrow> JObj [] | Some x \<Rightarrow> x) = input_schema"
      and "\<not> py_truthy input_schema"
    using that by (simp add: ollama_tool_def transform_falsy empty_parameters_def)
  have full: "ollama_tool (JObj td) =
             Inr (JObj [(''type'', JStr ''function''),
                        (''function'',
                         JObj [(''name'', nm), (''description'', descr),
                               (''parameters'',
                                JObj [(''type'', JStr ''object''),
                                      (''properties'',
                                       JObj (map (\<lambda>(n, schema). (n, JObj (described n schema))) pl)),
                                      (''required'',
                                       case map_of sd ''required'' of
                                         None \<Rightarrow> JArr [] | Some x \<Rightarrow> x)])])])"
    if "map_of td ''name'' = Some nm"
      and "(case map_of td ''description'' of None \<Rightarrow> JStr [] | Some x \<Rightarrow> x) = descr"
      and "(case map_of td ''inputSchema'' of None \<Rightarrow> JObj [] | Some x \<Rightarrow> x) = input_schema"
      and "input_schema = JObj sd" and ne: "sd \<noteq> []"
      and pr: "(case map_of sd ''properties'' of None \<Rightarrow> JObj [] | Some x \<Rightarrow> x) =
                 JObj (map (\<lambda>(n, schema). (n, JObj schema)) pl)"
      and di: "distinct (map fst pl)"
    using that(1-4) by (simp add: ollama_tool_def transform_object [OF ne pr di])
  show ?thesis using whole empty full by blast
qed

theorem to_ollama_format_spec_witness:
  "distinct (map fst [(''a'', [(''type'', JStr ''number'')]),
                      (''b'', [(''type'', JStr ''number''), (''description'', JStr ''second'')])])
   \<and> \<not> py_truthy (JObj [])
   \<and> to_ollama_format example_tools =
       Inr [JObj [(''type'', JStr ''function''),
                  (''function'',
                   JObj [(''name'', JStr ''add''), (''description'', JStr ''Add two numbers.''),
                         (''parameters'',
                          JObj [(''type'', JStr ''object''),
                                (''properties'',
                                 JObj [(''a'', JObj [(''type'', JStr ''number''),
                                                     (''description'', JStr ''The a parameter'')]),
                                       (''b'', JObj [(''type'', JStr ''number''),
                                                     (''description'', JStr ''second'')])]),
                                (''required'', JArr [JStr ''a'', JStr ''b''])])])],
            JObj [(''type'', JStr ''function''),
                  (''function'',
                   JObj [(''name'', JStr ''ping''), (''description'', JStr []),
                         (''parameters'',
                          JObj [(''type'', JStr ''object''), (''properties'', JObj []),
                                (''required'', JArr [])])])]]"
proof -
  let ?pl = "[(''a'', [(''type'', JStr ''number'')]),
              (''b'', [(''type'', JStr ''number''), (''description'', JStr ''second'')])]"
  let ?sd = "[(''type'', JStr ''object''),
              (''properties'',
               JObj [(''a'', JObj [(''type'', JStr ''number'')]),
                     (''b'', JObj [(''type'', JStr ''number''),
                                   (''description'', JStr ''second'')])]),
              (''required'', JArr [JStr ''a'', JStr ''b''])]"
  let ?add = "[(''name'', JStr ''add''), (''description'', JStr ''Add two numbers.''),
               (''inputSchema'', JObj ?sd)]"
  let ?ping = "[(''name'', JStr ''ping'')]"
  have d: "distinct (map fst ?pl)" by simp
  have f: "\<not> py_truthy (JObj [])" by simp
  have a: "ollama_tool (JObj ?add) =
       Inr (JObj [(''type'', JStr ''function''),
                  (''function'',
                   JObj [(''name'', JStr ''add''), (''description'', JStr ''Add two numbers.''),
                         (''parameters'',
                          JObj [(''type'', JStr ''object''),
                                (''properties'',
                                 JObj [(''a'', JObj [(''type'', JStr ''number''),
                                                     (''description'', JStr ''The a parameter'')]),
                                       (''b'', JObj [(''type'', JStr ''number''),
                                                     (''description'', JStr ''second'')])]),
                                (''required'', JArr [JStr ''a'', JStr ''b''])])])])"
    using to_ollama_format_spec
      [where td = ?add and nm = "JStr ''add''" and descr = "JStr ''Add two numbers.''"
         and input_schema = "JObj ?sd" and sd = ?sd and pl = ?pl] d
    by (simp add: described_def)
  have p: "ollama_tool (JObj ?ping) =
       Inr (JObj [(''type'', JStr ''function''),
                  (''function'',
                   JObj [(''name'', JStr ''ping''), (''description'', JStr []),
                         (''parameters'',
                          JObj [(''type'', JStr ''object''), (''properties'', JObj []),
                                (''required'', JArr [])])])])"
    using to_ollama_format_spec
      [where td = ?ping and nm = "JStr ''ping''" and descr = "JStr []"
         and input_schema = "JObj []"] f
    by simp
  show ?thesis
    using d f a p
      to_ollama_format_spec [where tools = example_tools, THEN conjunct1, THEN iffD2]
    by (simp add: example_tools_def)
qed

text \<open>
  C7 as stated fails: a registered tool whose property \<^verbatim>\<open>a\<close> has the boolean schema
  \<^verbatim>\<open>true\<close> makes \<^verbatim>\<open>prop_schema.copy()\<close> raise \<^verbatim>\<open>AttributeError\<close>, and
  to_ollama_format emits nothing.
\<close>

theorem to_ollama_format_spec_counterexample:
  "to_ollama_format
     [(''t'', JObj [(''name'', JStr ''t''),
                    (''inputSchema'',
                     JObj [(''type'', JStr ''object''),
                           (''properties'', JObj [(''a'', JBool True)])])])] =
   Inl AttributeError"
  by (simp add: to_ollama_format_def ollama_tool_def transform_input_schema_def enhance_prop_def)

end
